theory Spec2Isabelle
  imports Main
begin

section \<open>Data model of \<^verbatim>\<open>src/index.ts\<close>\<close>

text \<open>
  The embedding follows the class \<^verbatim>\<open>Fetcher\<close>. JavaScript objects used as dictionaries are
  maps, \<^verbatim>\<open>undefined\<close> is \<open>None\<close>, a thrown value or a rejected promise is the left
  injection of a sum, and \<^verbatim>\<open>await\<close> is sequencing. Strings are lists of 8-bit code units,
  which covers the ASCII header names, media types and URLs the code compares against.
\<close>

datatype Method = GET | POST | PATCH | PUT | DELETE

type_synonym BaseHeaders = "string \<rightharpoonup> string"

text \<open>
  The member \<^verbatim>\<open>headers\<close> of \<^verbatim>\<open>RequestInit\<close> is a \<^verbatim>\<open>HeadersInit\<close>: a plain record of
  strings, an instance of \<^verbatim>\<open>Headers\<close> (given here by its entries), or an array of arrays of
  strings.
\<close>

datatype HeadersInit =
  HeadersRecord BaseHeaders
| HeadersInstance "(string \<times> string) list"
| HeadersPairs "string list list"

text \<open>
  The object \<^verbatim>\<open>headers\<close> the pipeline builds by spreading is cast to
  \<^verbatim>\<open>Record<string, string>\<close>, but a member that comes from spreading an array of arrays is
  itself an array of strings.
\<close>

datatype HeaderValue = Str string | Arr "string list"

type_synonym HeaderRecord = "string \<rightharpoonup> HeaderValue"

text \<open>
  \<^verbatim>\<open>Options = Omit<RequestInit, "method" | "body">\<close>: the member \<^verbatim>\<open>headers\<close>, which the
  pipeline reads, and the remaining members of \<^verbatim>\<open>RequestInit\<close> (cache, credentials, mode, ...)
  keyed by name.
\<close>

record 'v Options =
  headers :: "HeadersInit option"
  others :: "string \<rightharpoonup> 'v"

text \<open>
  A body value is an \<^verbatim>\<open>object\<close>; the pipeline distinguishes instances of \<^verbatim>\<open>FormData\<close>
  from everything else. A \<open>FormData\<close> value can only exist where the global \<^verbatim>\<open>FormData\<close>
  is defined, so the guard \<^verbatim>\<open>typeof FormData !== "undefined"\<close> holds whenever
  \<^verbatim>\<open>body instanceof FormData\<close> does.
\<close>

datatype 'b Body = FormData 'b | OtherObject 'b

text \<open>\<^verbatim>\<open>ActionParams\<close>; the field \<open>method_of\<close> is its member \<^verbatim>\<open>method\<close>.\<close>

record ('b, 'v) ActionParams =
  method_of :: Method
  body :: "'b Body option"
  rest :: "'v Options"

text \<open>
  What is handed to \<^verbatim>\<open>new Request(url, init)\<close> as \<^verbatim>\<open>init.body\<close>: the text produced by
  \<^verbatim>\<open>JSON.stringify\<close>, or the body value itself.
\<close>

datatype 'b BodyInit = JsonText string | RawBody "'b Body"

text \<open>
  A request is the record of the arguments of \<^verbatim>\<open>new Request\<close>: the URL string, and the
  members \<^verbatim>\<open>method\<close>, \<^verbatim>\<open>headers\<close>, \<^verbatim>\<open>body\<close> and the remaining members of the init object.
\<close>

record ('b, 'v) Request =
  req_url :: string
  req_method :: Method
  req_headers :: HeaderRecord
  req_others :: "string \<rightharpoonup> 'v"
  req_body :: "'b BodyInit option"

text \<open>
  A response is the record of the members the pipeline uses: \<^verbatim>\<open>ok\<close>, \<^verbatim>\<open>status\<close>,
  \<^verbatim>\<open>headers.get\<close>, and the outcome of each of the body readers \<^verbatim>\<open>blob()\<close>, \<^verbatim>\<open>text()\<close>
  and \<^verbatim>\<open>json()\<close>, which may reject with a value of type \<open>'x\<close>.
\<close>

record ('x, 'r) Response =
  ok :: bool
  status :: int
  headers_get :: "string \<Rightarrow> string option"
  resp_blob :: "'x + 'r"
  resp_text :: "'x + 'r"
  resp_json :: "'x + 'r"

record FetcherError =
  url :: string
  statusCode :: int

record ('b, 'v, 'x, 'r) Ctx =
  request :: "('b, 'v) Request"
  response :: "('x, 'r) Response"

type_synonym ('b, 'v, 'x) RequestInterceptor =
  "('b, 'v) Request \<Rightarrow> 'x + ('b, 'v) Request"

type_synonym ('b, 'v, 'x, 'r) ResponseInterceptor =
  "('b, 'v, 'x, 'r) Ctx \<Rightarrow> 'x + ('b, 'v, 'x, 'r) Ctx"

text \<open>The private fields of the class.\<close>

record ('b, 'v, 'x, 'r, 'e) Fetcher =
  requestInterceptors :: "('b, 'v, 'x) RequestInterceptor list"
  responseInterceptors :: "('b, 'v, 'x, 'r) ResponseInterceptor list"
  baseUrl :: string
  baseHeaders :: BaseHeaders
  baseOptions :: "'v Options"
  baseThrower :: "('x, 'r) Response \<Rightarrow> ('b, 'v) Request \<Rightarrow> 'e"

text \<open>
  The globals the pipeline calls: \<^verbatim>\<open>JSON.stringify\<close>, which returns the text or throws (on
  a cyclic value, say), and \<^verbatim>\<open>fetch\<close>, whose promise resolves with a response or rejects.
\<close>

record ('b, 'v, 'x, 'r) Env =
  JSON_stringify :: "'b Body \<Rightarrow> 'x + string"
  fetch :: "('b, 'v) Request \<Rightarrow> 'x + ('x, 'r) Response"

text \<open>
  How a call ends in failure: with a value some collaborator threw (an interceptor, the
  transport, the serializer, a body reader), or with the value the error factory built.
\<close>

datatype ('x, 'e) Failure = Propagated 'x | Raised 'e

text \<open>The effects of the pipeline on the transport and on the response body, in order.\<close>

datatype BodyReader = AsBlob | AsText | AsJson

datatype ('b, 'v) Event = Fetched "('b, 'v) Request" | Read BodyReader

section \<open>Construction and registration\<close>

definition default_baseThrower ::
  "('x, 'r) Response \<Rightarrow> ('b, 'v) Request \<Rightarrow> FetcherError" where
  "default_baseThrower response' request' =
     (let statusCode' = status response'
      in \<lparr>url = req_url request', statusCode = statusCode'\<rparr>)"

record ('b, 'v, 'x, 'r) FetcherOptions =
  opt_baseUrl :: "string option"
  opt_baseHeaders :: "BaseHeaders option"
  opt_baseOptions :: "'v Options option"
  opt_baseError :: "(('x, 'r) Response \<Rightarrow> ('b, 'v) Request \<Rightarrow> FetcherError) option"

text \<open>
  The constructor. \<^verbatim>\<open>if (baseUrl)\<close> is a truthiness test: an empty string leaves the default,
  which is the empty string too.
\<close>

definition new_Fetcher ::
  "('b, 'v, 'x, 'r) FetcherOptions option \<Rightarrow> ('b, 'v, 'x, 'r, FetcherError) Fetcher" where
  "new_Fetcher options =
     \<lparr>requestInterceptors = [],
      responseInterceptors = [],
      baseUrl = (case Option.bind options opt_baseUrl of
                   Some u \<Rightarrow> (if u \<noteq> [] then u else [])
                 | None \<Rightarrow> []),
      baseHeaders = (case Option.bind options opt_baseHeaders of
                       Some h \<Rightarrow> h
                     | None \<Rightarrow> Map.empty),
      baseOptions = (case Option.bind options opt_baseOptions of
                       Some o' \<Rightarrow> o'
                     | None \<Rightarrow> \<lparr>headers = None, others = Map.empty\<rparr>),
      baseThrower = (case Option.bind options opt_baseError of
                       Some f \<Rightarrow> f
                     | None \<Rightarrow> default_baseThrower)\<rparr>"

definition addRequestInterceptor ::
  "('b, 'v, 'x) RequestInterceptor \<Rightarrow> ('b, 'v, 'x, 'r, 'e) Fetcher \<Rightarrow>
   ('b, 'v, 'x, 'r, 'e) Fetcher" where
  "addRequestInterceptor handler F =
     F\<lparr>requestInterceptors := requestInterceptors F @ [handler]\<rparr>"

definition addResponseInterceptor ::
  "('b, 'v, 'x, 'r) ResponseInterceptor \<Rightarrow> ('b, 'v, 'x, 'r, 'e) Fetcher \<Rightarrow>
   ('b, 'v, 'x, 'r, 'e) Fetcher" where
  "addResponseInterceptor handler F =
     F\<lparr>responseInterceptors := responseInterceptors F @ [handler]\<rparr>"

section \<open>String primitives\<close>

text \<open>
  \<^verbatim>\<open>String.prototype.trim\<close> removes white space and line terminators from both ends. Among
  the code units below 256 these are TAB, LF, VT, FF, CR, SPACE and NBSP.
\<close>

definition isWhiteSpace :: "char \<Rightarrow> bool" where
  "isWhiteSpace c = (of_char c \<in> {9, 10, 11, 12, 13, 32, 160 :: nat})"

definition trim :: "string \<Rightarrow> string" where
  "trim s = rev (dropWhile isWhiteSpace (rev (dropWhile isWhiteSpace s)))"

definition startsWith :: "string \<Rightarrow> string \<Rightarrow> bool" where
  "startsWith s p = (take (length p) s = p)"

text \<open>\<^verbatim>\<open>s.includes(sub)\<close>: \<open>sub\<close> occurs in \<open>s\<close> as a contiguous run.\<close>

fun includes_str :: "string \<Rightarrow> string \<Rightarrow> bool" where
  "includes_str [] sub = (sub = [])"
| "includes_str (c # cs) sub = (startsWith (c # cs) sub \<or> includes_str cs sub)"

text \<open>\<^verbatim>\<open>v?.includes(sub)\<close> in a condition: \<^verbatim>\<open>null\<close> gives \<^verbatim>\<open>undefined\<close>, which is falsy.\<close>

definition optIncludes :: "string option \<Rightarrow> string \<Rightarrow> bool" where
  "optIncludes v sub = (case v of None \<Rightarrow> False | Some s \<Rightarrow> includes_str s sub)"

section \<open>The pipeline\<close>

text \<open>
  \<^verbatim>\<open>normalizeUrl\<close>. \<^verbatim>\<open>result[0]\<close> of the empty string is \<^verbatim>\<open>undefined\<close>, which differs from
  \<^verbatim>\<open>"/"\<close>.
\<close>

definition normalizeUrl :: "string \<Rightarrow> string" where
  "normalizeUrl u =
     (let result = trim u
      in if startsWith result ''http'' \<or> startsWith result ''https'' then result
         else if (case result of [] \<Rightarrow> True | c # _ \<Rightarrow> c \<noteq> CHR ''/'') then ''/'' @ result
         else result)"

text \<open>\<^verbatim>\<open>{...options}\<close> of an optional argument: \<^verbatim>\<open>undefined\<close> spreads nothing.\<close>

definition spreadOptions :: "'v Options option \<Rightarrow> 'v Options" where
  "spreadOptions options =
     (case options of None \<Rightarrow> \<lparr>headers = None, others = Map.empty\<rparr> | Some o' \<Rightarrow> o')"

text \<open>\<^verbatim>\<open>{...this.baseHeaders}\<close>: the own enumerable properties of a record of strings.\<close>

definition spreadRecord :: "BaseHeaders \<Rightarrow> HeaderRecord" where
  "spreadRecord h = map_option Str \<circ> h"

text \<open>The property key of an array index: its decimal numeral.\<close>

fun indexKey :: "nat \<Rightarrow> string" where
  "indexKey n =
     (if n < 10 then [''0123456789'' ! n]
      else indexKey (n div 10) @ [''0123456789'' ! (n mod 10)])"

declare indexKey.simps [simp del]

fun indexEntries :: "nat \<Rightarrow> string list list \<Rightarrow> (string \<times> HeaderValue) list" where
  "indexEntries i [] = []"
| "indexEntries i (p # ps) = (indexKey i, Arr p) # indexEntries (Suc i) ps"

text \<open>
  \<^verbatim>\<open>{...rest.headers}\<close>: spreading copies the own enumerable string-keyed properties. An
  absent member has none; a plain record has its entries; an instance of \<^verbatim>\<open>Headers\<close> keeps
  its entries internally and has none; an array has its elements under their indices.
\<close>

definition spreadHeaders :: "HeadersInit option \<Rightarrow> HeaderRecord" where
  "spreadHeaders hs =
     (case hs of
        None \<Rightarrow> Map.empty
      | Some (HeadersRecord h) \<Rightarrow> spreadRecord h
      | Some (HeadersInstance entries) \<Rightarrow> Map.empty
      | Some (HeadersPairs ps) \<Rightarrow> map_of (indexEntries 0 ps))"

text \<open>\<^verbatim>\<open>typeof FormData !== "undefined" && body instanceof FormData\<close>.\<close>

definition instanceof_FormData :: "'b Body option \<Rightarrow> bool" where
  "instanceof_FormData v = (case v of Some (FormData _) \<Rightarrow> True | _ \<Rightarrow> False)"

text \<open>
  Lines 111 to 138 of \<^verbatim>\<open>action\<close>: from the parameters to \<^verbatim>\<open>rawRequest\<close>. The object
  \<^verbatim>\<open>options\<close> still carries the member \<^verbatim>\<open>headers\<close> of \<^verbatim>\<open>rest\<close> (or of \<^verbatim>\<open>baseOptions\<close>);
  in the init object \<^verbatim>\<open>{...options, method, headers, body}\<close> the later member \<^verbatim>\<open>headers\<close>
  replaces it. \<^verbatim>\<open>JSON.stringify(undefined)\<close> is \<^verbatim>\<open>undefined\<close>.
\<close>

definition rawRequest ::
  "('b, 'v, 'x, 'r) Env \<Rightarrow> ('b, 'v, 'x, 'r, 'e) Fetcher \<Rightarrow> string \<Rightarrow>
   ('b, 'v) ActionParams \<Rightarrow> 'x + ('b, 'v) Request" where
  "rawRequest env F u params =
     (let body' = body params;
          method' = method_of params;
          rest' = rest params;
          isFormData = instanceof_FormData body';
          headers0 = spreadRecord (baseHeaders F) ++ spreadHeaders (headers rest');
          options = \<lparr>headers = (case headers rest' of
                                  Some h \<Rightarrow> Some h
                                | None \<Rightarrow> headers (baseOptions F)),
                     others = others (baseOptions F) ++ others rest'\<rparr>;
          headers1 = (if isFormData then headers0(''Content-Type'' := None) else headers0);
          normalizedUrl = normalizeUrl (baseUrl F @ u)
      in case (if headers1 ''Content-Type'' = Some (Str ''application/json'')
               then (case body' of
                       None \<Rightarrow> Inr None
                     | Some b \<Rightarrow>
                         (case JSON_stringify env b of
                            Inl x \<Rightarrow> Inl x
                          | Inr s \<Rightarrow> Inr (Some (JsonText s))))
               else Inr (map_option RawBody body')) of
           Inl x \<Rightarrow> Inl x
         | Inr b \<Rightarrow>
             Inr \<lparr>req_url = normalizedUrl,
                  req_method = method',
                  req_headers = headers1,
                  req_others = others options,
                  req_body = b\<rparr>)"

text \<open>\<^verbatim>\<open>requestHandler\<close>: the loop over \<^verbatim>\<open>this.requestInterceptors\<close>.\<close>

fun requestLoop ::
  "('b, 'v, 'x) RequestInterceptor list \<Rightarrow> ('b, 'v) Request \<Rightarrow> 'x + ('b, 'v) Request" where
  "requestLoop [] result = Inr result"
| "requestLoop (interceptor # interceptors) result =
     (case interceptor result of
        Inl x \<Rightarrow> Inl x
      | Inr result' \<Rightarrow> requestLoop interceptors result')"

definition requestHandler ::
  "('b, 'v, 'x, 'r, 'e) Fetcher \<Rightarrow> ('b, 'v) Request \<Rightarrow> 'x + ('b, 'v) Request" where
  "requestHandler F request' = requestLoop (requestInterceptors F) request'"

text \<open>
  \<^verbatim>\<open>responseHandler\<close>: it awaits the promise it is given (the pending result of \<^verbatim>\<open>fetch\<close>),
  folds the interceptors over the context and returns the response of the last one.
\<close>

fun responseLoop ::
  "('b, 'v, 'x, 'r) ResponseInterceptor list \<Rightarrow> ('b, 'v, 'x, 'r) Ctx \<Rightarrow>
   'x + ('b, 'v, 'x, 'r) Ctx" where
  "responseLoop [] ctx = Inr ctx"
| "responseLoop (interceptor # interceptors) ctx =
     (case interceptor ctx of
        Inl x \<Rightarrow> Inl x
      | Inr ctx' \<Rightarrow> responseLoop interceptors ctx')"

definition responseHandler ::
  "('b, 'v, 'x, 'r, 'e) Fetcher \<Rightarrow> 'x + ('x, 'r) Response \<Rightarrow> ('b, 'v) Request \<Rightarrow>
   'x + ('x, 'r) Response" where
  "responseHandler F response' request' =
     (case response' of
        Inl x \<Rightarrow> Inl x
      | Inr newResponse \<Rightarrow>
          (case responseLoop (responseInterceptors F)
                  \<lparr>request = request', response = newResponse\<rparr> of
             Inl x \<Rightarrow> Inl x
           | Inr ctx \<Rightarrow> Inr (response ctx)))"

text \<open>Lines 153 to 169 of \<^verbatim>\<open>action\<close>: which reader is called on a successful response.\<close>

definition decode :: "('x, 'r) Response \<Rightarrow> BodyReader \<times> ('x + 'r)" where
  "decode response' =
     (let disposition = headers_get response' ''Content-Disposition'';
          contentType = headers_get response' ''Content-Type''
      in if optIncludes disposition ''attachment'' then (AsBlob, resp_blob response')
         else if optIncludes contentType ''text/'' then (AsText, resp_text response')
         else if optIncludes contentType ''image/'' \<or>
                 optIncludes contentType ''audio/'' \<or>
                 optIncludes contentType ''video/'' \<or>
                 optIncludes contentType ''application/vnd'' \<or>
                 contentType = Some ''application/octet-stream'' \<or>
                 contentType = Some ''application/zip''
         then (AsBlob, resp_blob response')
         else (AsJson, resp_json response'))"

text \<open>
  \<^verbatim>\<open>action\<close>. The result is the settlement of the returned promise together with the
  effects performed. \<^verbatim>\<open>request.clone()\<close> copies an immutable value.
\<close>

definition action ::
  "('b, 'v, 'x, 'r) Env \<Rightarrow> ('b, 'v, 'x, 'r, 'e) Fetcher \<Rightarrow> string \<Rightarrow>
   ('b, 'v) ActionParams \<Rightarrow> (('x, 'e) Failure + 'r) \<times> ('b, 'v) Event list" where
  "action env F u params =
     (case rawRequest env F u params of
        Inl x \<Rightarrow> (Inl (Propagated x), [])
      | Inr rawReq \<Rightarrow>
          (case requestHandler F rawReq of
             Inl x \<Rightarrow> (Inl (Propagated x), [])
           | Inr request' \<Rightarrow>
               (let reqClone = request'
                in case responseHandler F (fetch env request') reqClone of
                     Inl x \<Rightarrow> (Inl (Propagated x), [Fetched request'])
                   | Inr response' \<Rightarrow>
                       if \<not> ok response'
                       then (Inl (Raised (baseThrower F response' reqClone)),
                             [Fetched request'])
                       else (case decode response' of
                               (reader, Inl x) \<Rightarrow>
                                 (Inl (Propagated x), [Fetched request', Read reader])
                             | (reader, Inr v) \<Rightarrow>
                                 (Inr v, [Fetched request', Read reader])))))"

section \<open>The verb methods\<close>

text \<open>
  Each verb method builds the parameter object of \<^verbatim>\<open>action\<close>; \<open>options\<close> cannot carry
  \<^verbatim>\<open>method\<close> or \<^verbatim>\<open>body\<close>, so spreading it last changes neither. The parameter \<^verbatim>\<open>data\<close> of
  \<^verbatim>\<open>post\<close>, \<^verbatim>\<open>patch\<close>, \<^verbatim>\<open>put\<close> and \<^verbatim>\<open>delete\<close> is declared \<^verbatim>\<open>data: object\<close>.
\<close>

definition getParams :: "'v Options option \<Rightarrow> ('b, 'v) ActionParams" where
  "getParams options = \<lparr>method_of = GET, body = None, rest = spreadOptions options\<rparr>"

definition postParams :: "'b Body \<Rightarrow> 'v Options option \<Rightarrow> ('b, 'v) ActionParams" where
  "postParams data options = \<lparr>method_of = POST, body = Some data, rest = spreadOptions options\<rparr>"

definition patchParams :: "'b Body \<Rightarrow> 'v Options option \<Rightarrow> ('b, 'v) ActionParams" where
  "patchParams data options = \<lparr>method_of = PATCH, body = Some data, rest = spreadOptions options\<rparr>"

definition putParams :: "'b Body \<Rightarrow> 'v Options option \<Rightarrow> ('b, 'v) ActionParams" where
  "putParams data options = \<lparr>method_of = PUT, body = Some data, rest = spreadOptions options\<rparr>"

definition deleteParams :: "'b Body \<Rightarrow> 'v Options option \<Rightarrow> ('b, 'v) ActionParams" where
  "deleteParams data options =
     \<lparr>method_of = DELETE, body = Some data, rest = spreadOptions options\<rparr>"

definition get ::
  "('b, 'v, 'x, 'r) Env \<Rightarrow> ('b, 'v, 'x, 'r, 'e) Fetcher \<Rightarrow> string \<Rightarrow> 'v Options option \<Rightarrow>
   (('x, 'e) Failure + 'r) \<times> ('b, 'v) Event list" where
  "get env F u options = action env F u (getParams options)"

definition post ::
  "('b, 'v, 'x, 'r) Env \<Rightarrow> ('b, 'v, 'x, 'r, 'e) Fetcher \<Rightarrow> string \<Rightarrow> 'b Body \<Rightarrow>
   'v Options option \<Rightarrow> (('x, 'e) Failure + 'r) \<times> ('b, 'v) Event list" where
  "post env F u data options = action env F u (postParams data options)"

definition patch ::
  "('b, 'v, 'x, 'r) Env \<Rightarrow> ('b, 'v, 'x, 'r, 'e) Fetcher \<Rightarrow> string \<Rightarrow> 'b Body \<Rightarrow>
   'v Options option \<Rightarrow> (('x, 'e) Failure + 'r) \<times> ('b, 'v) Event list" where
  "patch env F u data options = action env F u (patchParams data options)"

definition put ::
  "('b, 'v, 'x, 'r) Env \<Rightarrow> ('b, 'v, 'x, 'r, 'e) Fetcher \<Rightarrow> string \<Rightarrow> 'b Body \<Rightarrow>
   'v Options option \<Rightarrow> (('x, 'e) Failure + 'r) \<times> ('b, 'v) Event list" where
  "put env F u data options = action env F u (putParams data options)"

definition delete ::
  "('b, 'v, 'x, 'r) Env \<Rightarrow> ('b, 'v, 'x, 'r, 'e) Fetcher \<Rightarrow> string \<Rightarrow> 'b Body \<Rightarrow>
   'v Options option \<Rightarrow> (('x, 'e) Failure + 'r) \<times> ('b, 'v) Event list" where
  "delete env F u data options = action env F u (deleteParams data options)"

section \<open>Definitions used to state the properties\<close>

text \<open>
  One step of a chain: the awaited output of the handlers so far is the input of the next
  handler, and a failure ends the chain.
\<close>

definition awaitThen :: "('a \<Rightarrow> 'x + 'a) \<Rightarrow> 'x + 'a \<Rightarrow> 'x + 'a" where
  "awaitThen handler acc = (case acc of Inl x \<Rightarrow> Inl x | Inr v \<Rightarrow> handler v)"

text \<open>
  The URL rule in the words of the specification, with "starts with an http/https scheme"
  read as: starts with the scheme name and its colon. It is compared with \<open>normalizeUrl\<close>
  below.
\<close>

definition startsWithHttpScheme :: "string \<Rightarrow> bool" where
  "startsWithHttpScheme s = (startsWith s ''http:'' \<or> startsWith s ''https:'')"

definition claimed_normalizeUrl :: "string \<Rightarrow> string" where
  "claimed_normalizeUrl u =
     (let t = trim u
      in if startsWithHttpScheme t then t
         else if \<not> startsWith t ''/'' then ''/'' @ t
         else t)"

text \<open>
  Concrete collaborators, in the manner of the repository's tests: a response with a given
  status line and header list, a transport that answers every request with it, and a client
  with a base URL and base headers.
\<close>

definition mockResponse ::
  "bool \<Rightarrow> int \<Rightarrow> (string \<times> string) list \<Rightarrow> (string, string) Response" where
  "mockResponse ok' status' hs =
     \<lparr>ok = ok', status = status', headers_get = map_of hs,
      resp_blob = Inr ''blob'', resp_text = Inr ''text'', resp_json = Inr ''json''\<rparr>"

definition mockEnv :: "(string, string) Response \<Rightarrow> (string, string, string, string) Env" where
  "mockEnv res =
     \<lparr>JSON_stringify = (\<lambda>b. case b of FormData p \<Rightarrow> Inr ''{}'' | OtherObject p \<Rightarrow> Inr p),
      fetch = (\<lambda>_. Inr res)\<rparr>"

definition mockFetcher ::
  "string \<Rightarrow> (string \<times> string) list \<Rightarrow>
   (string, string, string, string, FetcherError) Fetcher" where
  "mockFetcher b hs =
     new_Fetcher (Some \<lparr>opt_baseUrl = Some b, opt_baseHeaders = Some (map_of hs),
                         opt_baseOptions = None, opt_baseError = None\<rparr>)"

text \<open>Two request interceptors that do not commute, and a response interceptor.\<close>

definition appendToUrl :: "string \<Rightarrow> (string, string, string) RequestInterceptor" where
  "appendToUrl s r = Inr (r\<lparr>req_url := req_url r @ s\<rparr>)"

definition replaceResponse ::
  "(string, string) Response \<Rightarrow> (string, string, string, string) ResponseInterceptor" where
  "replaceResponse res ctx = Inr (ctx\<lparr>response := res\<rparr>)"

section \<open>Auxiliary facts\<close>

lemmas mock_defs = mockResponse_def mockEnv_def mockFetcher_def new_Fetcher_def

lemmas url_defs = normalizeUrl_def trim_def startsWith_def isWhiteSpace_def

lemmas raw_defs = rawRequest_def Let_def spreadOptions_def spreadHeaders_def
  spreadRecord_def instanceof_FormData_def

lemmas params_defs = getParams_def postParams_def patchParams_def putParams_def
  deleteParams_def

text \<open>
  The two string tests agree with their mathematical reading: \<open>startsWith\<close> is "is a prefix
  of", \<open>includes_str\<close> is "occurs as a contiguous run in".
\<close>

lemma startsWith_iff: "startsWith s p \<longleftrightarrow> (\<exists>post. s = p @ post)"
proof
  assume "startsWith s p"
  then have "s = p @ drop (length p) s"
    by (metis append_take_drop_id startsWith_def)
  then show "\<exists>post. s = p @ post" ..
next
  assume "\<exists>post. s = p @ post"
  then show "startsWith s p"
    by (auto simp: startsWith_def)
qed

lemma includes_str_iff: "includes_str s sub \<longleftrightarrow> (\<exists>pre post. s = pre @ sub @ post)"
proof (induction s)
  case Nil
  show ?case by auto
next
  case (Cons c cs)
  show ?case
  proof
    assume "includes_str (c # cs) sub"
    then consider "startsWith (c # cs) sub" | "includes_str cs sub"
      by auto
    then show "\<exists>pre post. c # cs = pre @ sub @ post"
    proof cases
      case 1
      then obtain post where "c # cs = sub @ post"
        by (auto simp: startsWith_iff)
      then have "c # cs = [] @ sub @ post"
        by simp
      then show ?thesis by blast
    next
      case 2
      then obtain pre post where "cs = pre @ sub @ post"
        using Cons.IH by auto
      then have "c # cs = (c # pre) @ sub @ post"
        by simp
      then show ?thesis by blast
    qed
  next
    assume "\<exists>pre post. c # cs = pre @ sub @ post"
    then obtain pre post where e: "c # cs = pre @ sub @ post"
      by blast
    show "includes_str (c # cs) sub"
    proof (cases pre)
      case Nil
      with e have "startsWith (c # cs) sub"
        by (auto simp: startsWith_iff)
      then show ?thesis by simp
    next
      case (Cons a pre')
      with e have "cs = pre' @ sub @ post"
        by simp
      then have "includes_str cs sub"
        using Cons.IH by blast
      then show ?thesis by simp
    qed
  qed
qed

lemma startsWith_https_http:
  assumes "startsWith s ''https''"
  shows "startsWith s ''http''"
proof -
  from assms have a: "take (length ''https'') s = ''https''"
    unfolding startsWith_def .
  have "take (length ''http'') s = take (length ''http'') (take (length ''https'') s)"
    by simp
  also have "\<dots> = take (length ''http'') ''https''"
    by (simp only: a)
  also have "\<dots> = ''http''"
    by simp
  finally show ?thesis
    unfolding startsWith_def .
qed

lemma startsWith_slash:
  "startsWith s ''/'' \<longleftrightarrow> (case s of [] \<Rightarrow> False | c # _ \<Rightarrow> c = CHR ''/'')"
  by (cases s) (simp_all add: startsWith_def)

lemma normalizeUrl_cases:
  "normalizeUrl u =
     (let t = trim u
      in if startsWith t ''http'' then t
         else if startsWith t ''/'' then t
         else ''/'' @ t)"
  unfolding normalizeUrl_def Let_def startsWith_slash
  using startsWith_https_http [of "trim u"]
  by (cases "trim u") auto

text \<open>What a successfully constructed request consists of.\<close>

lemma rawRequest_InrD:
  assumes "rawRequest env F u params = Inr r"
  shows "req_headers r =
           (if instanceof_FormData (body params)
            then (spreadRecord (baseHeaders F) ++ spreadHeaders (headers (rest params)))
                   (''Content-Type'' := None)
            else spreadRecord (baseHeaders F) ++ spreadHeaders (headers (rest params)))"
    and "req_others r = others (baseOptions F) ++ others (rest params)"
    and "req_method r = method_of params"
    and "(if req_headers r ''Content-Type'' = Some (Str ''application/json'')
          then (case body params of
                  None \<Rightarrow> Inr None
                | Some b \<Rightarrow>
                    (case JSON_stringify env b of
                       Inl x \<Rightarrow> Inl x
                     | Inr s \<Rightarrow> Inr (Some (JsonText s))))
          else Inr (map_option RawBody (body params))) = Inr (req_body r)"
proof -
  let ?h = "if instanceof_FormData (body params)
            then (spreadRecord (baseHeaders F) ++ spreadHeaders (headers (rest params)))
                   (''Content-Type'' := None)
            else spreadRecord (baseHeaders F) ++ spreadHeaders (headers (rest params))"
  let ?b = "if ?h ''Content-Type'' = Some (Str ''application/json'')
            then (case body params of
                    None \<Rightarrow> Inr None
                  | Some b \<Rightarrow>
                      (case JSON_stringify env b of
                         Inl x \<Rightarrow> Inl x
                       | Inr s \<Rightarrow> Inr (Some (JsonText s))))
            else Inr (map_option RawBody (body params))"
  from assms have *: "(case ?b of
           Inl x \<Rightarrow> Inl x
         | Inr b \<Rightarrow>
             Inr \<lparr>req_url = normalizeUrl (baseUrl F @ u),
                  req_method = method_of params,
                  req_headers = ?h,
                  req_others = others (baseOptions F) ++ others (rest params),
                  req_body = b\<rparr>) = Inr r"
    unfolding rawRequest_def Let_def by (simp only: Options.select_convs)
  then obtain b where b: "?b = Inr b"
    and r: "r = \<lparr>req_url = normalizeUrl (baseUrl F @ u),
                  req_method = method_of params,
                  req_headers = ?h,
                  req_others = others (baseOptions F) ++ others (rest params),
                  req_body = b\<rparr>"
    by (cases ?b) simp_all
  show "req_headers r = ?h"
    by (simp add: r)
  show "req_others r = others (baseOptions F) ++ others (rest params)"
    by (simp add: r)
  show "req_method r = method_of params"
    by (simp add: r)
  have "req_headers r = ?h" "req_body r = b"
    by (simp_all add: r)
  with b show "(if req_headers r ''Content-Type'' = Some (Str ''application/json'')
          then (case body params of
                  None \<Rightarrow> Inr None
                | Some b \<Rightarrow>
                    (case JSON_stringify env b of
                       Inl x \<Rightarrow> Inl x
                     | Inr s \<Rightarrow> Inr (Some (JsonText s))))
          else Inr (map_option RawBody (body params))) = Inr (req_body r)"
    by simp
qed

lemma rawRequest_url:
  assumes "rawRequest env F u params = Inr r"
  shows "req_url r = normalizeUrl (baseUrl F @ u)"
  using assms
  by (auto simp: rawRequest_def Let_def split: if_splits option.splits sum.splits)

lemma rawRequest_body_json:
  assumes "rawRequest env F u params = Inr r"
    and "req_headers r ''Content-Type'' = Some (Str ''application/json'')"
    and "body params = Some d"
  shows "\<exists>s. JSON_stringify env d = Inr s \<and> req_body r = Some (JsonText s)"
  using rawRequest_InrD(4) [OF assms(1)] assms(2,3)
  by (cases "JSON_stringify env d") auto

lemma rawRequest_body_raw:
  assumes "rawRequest env F u params = Inr r"
    and "req_headers r ''Content-Type'' \<noteq> Some (Str ''application/json'')"
  shows "req_body r = map_option RawBody (body params)"
  using rawRequest_InrD(4) [OF assms(1)] assms(2)
  by simp

lemma rawRequest_body_absent:
  assumes "rawRequest env F u params = Inr r"
    and "body params = None"
  shows "req_body r = None"
  using rawRequest_InrD(4) [OF assms(1)] assms(2)
  by (simp split: if_splits)

lemma rawRequest_FormData:
  assumes "body params = Some (FormData p)"
  shows "rawRequest env F u params =
           Inr \<lparr>req_url = normalizeUrl (baseUrl F @ u),
                req_method = method_of params,
                req_headers = (spreadRecord (baseHeaders F) ++ spreadHeaders (headers (rest params)))
                                (''Content-Type'' := None),
                req_others = others (baseOptions F) ++ others (rest params),
                req_body = Some (RawBody (FormData p))\<rparr>"
  by (simp add: rawRequest_def Let_def instanceof_FormData_def assms)

text \<open>
  Once the request is constructed and the request interceptors have returned, the call is
  settled by the response handler's result alone.
\<close>

lemma action_dispatched:
  assumes "rawRequest env F u params = Inr rawReq"
    and "requestHandler F rawReq = Inr req"
  shows "action env F u params =
           (case responseHandler F (fetch env req) req of
              Inl x \<Rightarrow> (Inl (Propagated x), [Fetched req])
            | Inr res \<Rightarrow>
                if \<not> ok res then (Inl (Raised (baseThrower F res req)), [Fetched req])
                else (map_sum Propagated id (snd (decode res)),
                      [Fetched req, Read (fst (decode res))]))"
  unfolding action_def
  by (simp add: assms Let_def split: sum.splits prod.splits)

text \<open>Without request interceptors the request constructed is the request dispatched.\<close>

lemma action_dispatches_raw:
  assumes "rawRequest env F u params = Inr r"
    and "requestInterceptors F = []"
  shows "\<exists>evs. snd (action env F u params) = Fetched r # evs"
proof -
  have "requestHandler F r = Inr r"
    by (simp add: requestHandler_def assms(2))
  from action_dispatched [OF assms(1) this] show ?thesis
    by (simp split: sum.splits)
qed

text \<open>Both loops are left folds of \<open>awaitThen\<close> over the interceptor list.\<close>

lemma awaitThen_simps:
  "awaitThen h (Inl x) = Inl x"
  "awaitThen h (Inr v) = h v"
  by (simp_all add: awaitThen_def)

lemma fold_awaitThen_Inl: "fold awaitThen hs (Inl x) = Inl x"
  by (induction hs) (simp_all add: awaitThen_simps)

lemma requestLoop_fold: "requestLoop hs r = fold awaitThen hs (Inr r)"
proof (induction hs arbitrary: r)
  case Nil
  show ?case by simp
next
  case (Cons h hs)
  show ?case
  proof (cases "h r")
    case (Inl x)
    then show ?thesis
      by (simp add: awaitThen_simps fold_awaitThen_Inl)
  next
    case (Inr r')
    then show ?thesis
      by (simp add: awaitThen_simps Cons.IH)
  qed
qed

lemma responseLoop_fold: "responseLoop hs c = fold awaitThen hs (Inr c)"
proof (induction hs arbitrary: c)
  case Nil
  show ?case by simp
next
  case (Cons h hs)
  show ?case
  proof (cases "h c")
    case (Inl x)
    then show ?thesis
      by (simp add: awaitThen_simps fold_awaitThen_Inl)
  next
    case (Inr c')
    then show ?thesis
      by (simp add: awaitThen_simps Cons.IH)
  qed
qed

section \<open>Constructing the request\<close>

text \<open>
  C3. Whenever a call constructs its request, the body handed to the request is the JSON
  serialization of the supplied data if and only if the entry \<^verbatim>\<open>Content-Type\<close> of the merged
  headers, as they stand when the request is constructed, equals \<^verbatim>\<open>application/json\<close>; for
  any other or absent value the raw body value is passed unchanged. A call without data
  carries no body either way. Unless a request interceptor is registered, this request is
  the one dispatched.
\<close>

theorem C3_json_body_iff_content_type:
  assumes "rawRequest env F u params = Inr r"
  shows "req_headers r ''Content-Type'' =
           (if instanceof_FormData (body params) then None
            else (spreadRecord (baseHeaders F) ++ spreadHeaders (headers (rest params))) ''Content-Type'')
       \<and> (case body params of
            None \<Rightarrow> req_body r = None
          | Some d \<Rightarrow>
              ((\<exists>s. req_body r = Some (JsonText s)) \<longleftrightarrow>
                 req_headers r ''Content-Type'' = Some (Str ''application/json''))
            \<and> (req_headers r ''Content-Type'' = Some (Str ''application/json'') \<longrightarrow>
                 (\<exists>s. JSON_stringify env d = Inr s \<and> req_body r = Some (JsonText s)))
            \<and> (req_headers r ''Content-Type'' \<noteq> Some (Str ''application/json'') \<longrightarrow>
                 req_body r = Some (RawBody d)))
       \<and> (requestInterceptors F = [] \<longrightarrow>
            (\<exists>evs. snd (action env F u params) = Fetched r # evs))"
proof -
  have "req_headers r ''Content-Type'' =
           (if instanceof_FormData (body params) then None
            else (spreadRecord (baseHeaders F) ++ spreadHeaders (headers (rest params))) ''Content-Type'')"
    by (simp add: rawRequest_InrD(1) [OF assms])
  moreover have "\<exists>evs. snd (action env F u params) = Fetched r # evs"
    if "requestInterceptors F = []"
    using assms that by (rule action_dispatches_raw)
  moreover have "req_body r = None" if "body params = None"
    using assms that by (rule rawRequest_body_absent)
  moreover have "(\<exists>s. req_body r = Some (JsonText s)) \<longleftrightarrow>
                 req_headers r ''Content-Type'' = Some (Str ''application/json'')"
    if "body params = Some d" for d
    using rawRequest_body_json [OF assms _ that] rawRequest_body_raw [OF assms] that
    by (cases "req_headers r ''Content-Type'' = Some (Str ''application/json'')") auto
  moreover have "\<exists>s. JSON_stringify env d = Inr s \<and> req_body r = Some (JsonText s)"
    if "body params = Some d" "req_headers r ''Content-Type'' = Some (Str ''application/json'')"
    for d
    using rawRequest_body_json [OF assms that(2) that(1)] .
  moreover have "req_body r = Some (RawBody d)"
    if "body params = Some d" "req_headers r ''Content-Type'' \<noteq> Some (Str ''application/json'')"
    for d
    using rawRequest_body_raw [OF assms that(2)] that(1) by simp
  ultimately show ?thesis
    by (simp split: option.split)
qed

text \<open>
  A \<^verbatim>\<open>post\<close> under the base header \<^verbatim>\<open>Content-Type: application/json\<close> sends the serialized
  text, and under \<^verbatim>\<open>Content-Type: text/plain\<close> the object itself.
\<close>

theorem C3_json_body_iff_content_type_witness:
  "rawRequest (mockEnv (mockResponse True 200 []))
       (mockFetcher ''http://localhost'' [(''Content-Type'', ''application/json'')])
       ''/test'' (postParams (OtherObject ''[1,2]'') None) =
     Inr \<lparr>req_url = ''http://localhost/test'', req_method = POST,
          req_headers = [''Content-Type'' \<mapsto> Str ''application/json''],
          req_others = Map.empty, req_body = Some (JsonText ''[1,2]'')\<rparr>
   \<and> rawRequest (mockEnv (mockResponse True 200 []))
       (mockFetcher ''http://localhost'' [(''Content-Type'', ''text/plain'')])
       ''/test'' (postParams (OtherObject ''[1,2]'') None) =
     Inr \<lparr>req_url = ''http://localhost/test'', req_method = POST,
          req_headers = [''Content-Type'' \<mapsto> Str ''text/plain''],
          req_others = Map.empty, req_body = Some (RawBody (OtherObject ''[1,2]''))\<rparr>"
proof -
  let ?env = "mockEnv (mockResponse True 200 [])"
  have h1: "rawRequest ?env
       (mockFetcher ''http://localhost'' [(''Content-Type'', ''application/json'')])
       ''/test'' (postParams (OtherObject ''[1,2]'') None) =
     Inr \<lparr>req_url = ''http://localhost/test'', req_method = POST,
          req_headers = [''Content-Type'' \<mapsto> Str ''application/json''],
          req_others = Map.empty, req_body = Some (JsonText ''[1,2]'')\<rparr>"
    by (simp add: raw_defs mock_defs params_defs url_defs)
  have h2: "rawRequest ?env
       (mockFetcher ''http://localhost'' [(''Content-Type'', ''text/plain'')])
       ''/test'' (postParams (OtherObject ''[1,2]'') None) =
     Inr \<lparr>req_url = ''http://localhost/test'', req_method = POST,
          req_headers = [''Content-Type'' \<mapsto> Str ''text/plain''],
          req_others = Map.empty, req_body = Some (RawBody (OtherObject ''[1,2]''))\<rparr>"
    by (simp add: raw_defs mock_defs params_defs url_defs)
  from C3_json_body_iff_content_type [OF h1] C3_json_body_iff_content_type [OF h2] h1 h2
  show ?thesis
    by simp
qed

text \<open>
  C4 (as amended). The URL of the request a call constructs is \<open>baseUrl\<close> followed by the
  per-call \<open>url\<close>, trimmed of white space at both ends; it is left unchanged when the trimmed
  text starts with the four characters \<^verbatim>\<open>http\<close> (which every \<^verbatim>\<open>http:\<close> and \<^verbatim>\<open>https:\<close> URL
  does), and otherwise gets a \<^verbatim>\<open>/\<close> in front unless it already starts with one. So
  \<^verbatim>\<open>path\<close> becomes \<^verbatim>\<open>/path\<close>, \<^verbatim>\<open>/path\<close> stays, and \<^verbatim>\<open>http://x/path\<close> is unchanged. Unless a
  request interceptor is registered, this request is the one dispatched.
\<close>

theorem C4_dispatched_url:
  assumes "rawRequest env F u params = Inr r"
  shows "req_url r =
           (let t = trim (baseUrl F @ u)
            in if startsWith t ''http'' then t
               else if startsWith t ''/'' then t
               else ''/'' @ t)
         \<and> (requestInterceptors F = [] \<longrightarrow>
              (\<exists>evs. snd (action env F u params) = Fetched r # evs))
         \<and> normalizeUrl ''path'' = ''/path''
         \<and> normalizeUrl ''/path'' = ''/path''
         \<and> normalizeUrl ''http://x/path'' = ''http://x/path''
         \<and> normalizeUrl ''  https://x/path  '' = ''https://x/path''"
proof -
  have "req_url r = normalizeUrl (baseUrl F @ u)"
    using assms by (rule rawRequest_url)
  moreover have "\<exists>evs. snd (action env F u params) = Fetched r # evs"
    if "requestInterceptors F = []"
    using assms that by (rule action_dispatches_raw)
  moreover have "normalizeUrl ''path'' = ''/path''"
    by (simp add: url_defs)
  moreover have "normalizeUrl ''/path'' = ''/path''"
    by (simp add: url_defs)
  moreover have "normalizeUrl ''http://x/path'' = ''http://x/path''"
    by (simp add: url_defs)
  moreover have "normalizeUrl ''  https://x/path  '' = ''https://x/path''"
    by (simp add: url_defs)
  ultimately show ?thesis
    by (simp add: normalizeUrl_cases)
qed

text \<open>
  The hypothesis holds for a \<^verbatim>\<open>get\<close> of \<^verbatim>\<open>" users/1 "\<close> on a client without base URL, and
  the request goes to \<^verbatim>\<open>/users/1\<close>.
\<close>

theorem C4_dispatched_url_witness:
  "rawRequest (mockEnv (mockResponse True 200 [])) (mockFetcher '''' []) '' users/1 ''
       (getParams None) =
     Inr \<lparr>req_url = ''/users/1'', req_method = GET, req_headers = Map.empty,
          req_others = Map.empty, req_body = None\<rparr>
   \<and> trim (baseUrl (mockFetcher '''' []) @ '' users/1 '') = ''users/1''"
proof -
  have h: "rawRequest (mockEnv (mockResponse True 200 [])) (mockFetcher '''' []) '' users/1 ''
       (getParams None) =
     Inr \<lparr>req_url = ''/users/1'', req_method = GET, req_headers = Map.empty,
          req_others = Map.empty, req_body = None\<rparr>"
    by (simp add: raw_defs mock_defs params_defs url_defs)
  from C4_dispatched_url [OF h] h show ?thesis
    by (simp add: mock_defs url_defs)
qed

text \<open>
  A relative path that begins with the letters \<^verbatim>\<open>http\<close> starts with no scheme and with no
  slash, yet it is dispatched as it is: the rule as the specification words it would send
  \<^verbatim>\<open>httpbin/get\<close> to \<^verbatim>\<open>/httpbin/get\<close>.
\<close>

theorem C4_counterexample:
  "map_sum id req_url
     (rawRequest (mockEnv (mockResponse True 200 [])) (mockFetcher '''' []) ''httpbin/get''
        (getParams None)) = Inr ''httpbin/get''
   \<and> claimed_normalizeUrl (baseUrl (mockFetcher '''' []) @ ''httpbin/get'') = ''/httpbin/get''
   \<and> map_sum id req_url
     (rawRequest (mockEnv (mockResponse True 200 [])) (mockFetcher '''' []) ''httpbin/get''
        (getParams None)) \<noteq>
       Inr (claimed_normalizeUrl (baseUrl (mockFetcher '''' []) @ ''httpbin/get''))"
  by (simp add: raw_defs mock_defs params_defs url_defs
      claimed_normalizeUrl_def startsWithHttpScheme_def)




text \<open>
  Per-call headers given as an instance of \<^verbatim>\<open>Headers\<close> or as an array of pairs are outside
  that statement: spreading them contributes no key, or the array indices, so the header
  names they carry do not enter the header set.
\<close>

lemma per_call_headers_not_a_record:
  "map_sum id req_headers
     (rawRequest (mockEnv (mockResponse True 200 [])) (mockFetcher '''' [(''X-Api-Key'', ''k'')])
        ''/t''
        (getParams (Some \<lparr>headers = Some (HeadersInstance [(''X-Trace'', ''1'')]),
                            others = Map.empty\<rparr>))) =
     Inr [''X-Api-Key'' \<mapsto> Str ''k'']"
  "map_sum id req_headers
     (rawRequest (mockEnv (mockResponse True 200 [])) (mockFetcher '''' [(''X-Api-Key'', ''k'')])
        ''/t''
        (getParams (Some \<lparr>headers = Some (HeadersPairs [[''X-Trace'', ''1'']]),
                            others = Map.empty\<rparr>))) =
     Inr [''X-Api-Key'' \<mapsto> Str ''k'', ''0'' \<mapsto> Arr [''X-Trace'', ''1'']]"
  by (auto simp: raw_defs mock_defs params_defs url_defs indexKey.simps [of 0]
      map_add_def fun_eq_iff)

text \<open>
  C8. A call whose body is a form-data container always constructs its request (the
  serializer is not consulted), the request's headers are the merged headers without the
  entry \<^verbatim>\<open>Content-Type\<close>, and the body is the form-data value itself, not JSON text.
\<close>

theorem C8_form_data_removes_content_type:
  assumes "body params = Some (FormData p)"
  shows "\<exists>r. rawRequest env F u params = Inr r
           \<and> req_headers r =
               (spreadRecord (baseHeaders F) ++ spreadHeaders (headers (rest params)))
                 (''Content-Type'' := None)
           \<and> req_headers r ''Content-Type'' = None
           \<and> req_body r = Some (RawBody (FormData p))"
  by (simp add: rawRequest_FormData [OF assms])

text \<open>
  A form-data \<^verbatim>\<open>post\<close> under the base headers \<^verbatim>\<open>Content-Type: application/json\<close> and
  \<^verbatim>\<open>X-Api-Key\<close> keeps the latter only.
\<close>

theorem C8_form_data_removes_content_type_witness:
  "rawRequest (mockEnv (mockResponse True 200 []))
       (mockFetcher '''' [(''Content-Type'', ''application/json''), (''X-Api-Key'', ''k'')])
       ''/upload'' (postParams (FormData ''file'') None) =
     Inr \<lparr>req_url = ''/upload'', req_method = POST,
          req_headers = [''X-Api-Key'' \<mapsto> Str ''k''],
          req_others = Map.empty, req_body = Some (RawBody (FormData ''file''))\<rparr>"
proof -
  let ?env = "mockEnv (mockResponse True 200 [])"
  let ?F = "mockFetcher '''' [(''Content-Type'', ''application/json''), (''X-Api-Key'', ''k'')]"
  let ?p = "postParams (FormData ''file'') None :: (string, string) ActionParams"
  have h: "body ?p = Some (FormData ''file'')"
    by (simp add: params_defs)
  from C8_form_data_removes_content_type [OF h, of ?env ?F "''/upload''"]
  obtain r where r: "rawRequest ?env ?F ''/upload'' ?p = Inr r"
    and b: "req_body r = Some (RawBody (FormData ''file''))"
    by blast
  have "rawRequest ?env ?F ''/upload'' ?p =
     Inr \<lparr>req_url = ''/upload'', req_method = POST,
          req_headers = [''X-Api-Key'' \<mapsto> Str ''k''],
          req_others = Map.empty, req_body = req_body r\<rparr>"
    using r by (auto simp: raw_defs mock_defs params_defs url_defs fun_eq_iff)
  with b show ?thesis
    by simp
qed

text \<open>
  C10 (as amended). For a call with data: the body is passed raw whenever the merged headers
  hold anything but exactly \<^verbatim>\<open>application/json\<close> under exactly the key \<^verbatim>\<open>Content-Type\<close>
  (so neither a key \<^verbatim>\<open>content-type\<close> nor a value \<^verbatim>\<open>application/json; charset=utf-8\<close>
  triggers serialization); every header under a key other than \<^verbatim>\<open>Content-Type\<close> reaches
  the request unchanged, for form-data bodies too; and for a form-data body the entry under
  exactly \<^verbatim>\<open>Content-Type\<close> is removed whatever its value.
\<close>

theorem C10_exact_key_and_value:
  assumes "rawRequest env F u params = Inr r"
    and "body params = Some d"
  shows "(let merged = spreadRecord (baseHeaders F) ++ spreadHeaders (headers (rest params))
          in (merged ''Content-Type'' \<noteq> Some (Str ''application/json'') \<longrightarrow>
                req_body r = Some (RawBody d))
           \<and> (\<forall>k. k \<noteq> ''Content-Type'' \<longrightarrow> req_headers r k = merged k)
           \<and> (instanceof_FormData (Some d) \<longrightarrow>
                req_headers r ''Content-Type'' = None \<and> req_body r = Some (RawBody d))
           \<and> (\<not> instanceof_FormData (Some d) \<longrightarrow>
                req_headers r ''Content-Type'' = merged ''Content-Type''))
       \<and> ''content-type'' \<noteq> ''Content-Type''
       \<and> ''application/json; charset=utf-8'' \<noteq> ''application/json''"
proof -
  let ?merged = "spreadRecord (baseHeaders F) ++ spreadHeaders (headers (rest params))"
  note h = rawRequest_InrD(1) [OF assms(1)]
  have 1: "req_body r = Some (RawBody d)" if "?merged ''Content-Type'' \<noteq> Some (Str ''application/json'')"
  proof -
    from h that have "req_headers r ''Content-Type'' \<noteq> Some (Str ''application/json'')"
      by (simp split: if_splits)
    from rawRequest_body_raw [OF assms(1) this] assms(2) show ?thesis
      by simp
  qed
  have 2: "req_headers r k = ?merged k" if "k \<noteq> ''Content-Type''" for k
    using h that by simp
  have 3: "req_headers r ''Content-Type'' = None \<and> req_body r = Some (RawBody d)"
    if "instanceof_FormData (Some d)"
  proof -
    from h that assms(2) have n: "req_headers r ''Content-Type'' = None"
      by simp
    then have "req_headers r ''Content-Type'' \<noteq> Some (Str ''application/json'')"
      by simp
    from rawRequest_body_raw [OF assms(1) this] assms(2) n show ?thesis
      by simp
  qed
  have 4: "req_headers r ''Content-Type'' = ?merged ''Content-Type''"
    if "\<not> instanceof_FormData (Some d)"
    using h that assms(2) by simp
  from 1 2 3 4 show ?thesis
    unfolding Let_def by simp
qed

text \<open>
  The key \<^verbatim>\<open>content-type\<close> does not trigger serialization and survives a form-data body;
  the value \<^verbatim>\<open>application/json; charset=utf-8\<close> does not trigger serialization.
\<close>

theorem C10_exact_key_and_value_witness:
  "rawRequest (mockEnv (mockResponse True 200 []))
       (mockFetcher '''' [(''content-type'', ''application/json'')])
       ''/t'' (postParams (OtherObject ''[1]'') None) =
     Inr \<lparr>req_url = ''/t'', req_method = POST,
          req_headers = [''content-type'' \<mapsto> Str ''application/json''],
          req_others = Map.empty, req_body = Some (RawBody (OtherObject ''[1]''))\<rparr>
   \<and> rawRequest (mockEnv (mockResponse True 200 []))
       (mockFetcher '''' [(''Content-Type'', ''application/json; charset=utf-8'')])
       ''/t'' (postParams (OtherObject ''[1]'') None) =
     Inr \<lparr>req_url = ''/t'', req_method = POST,
          req_headers = [''Content-Type'' \<mapsto> Str ''application/json; charset=utf-8''],
          req_others = Map.empty, req_body = Some (RawBody (OtherObject ''[1]''))\<rparr>
   \<and> rawRequest (mockEnv (mockResponse True 200 []))
       (mockFetcher '''' [(''content-type'', ''application/json'')])
       ''/t'' (postParams (FormData ''file'') None) =
     Inr \<lparr>req_url = ''/t'', req_method = POST,
          req_headers = [''content-type'' \<mapsto> Str ''application/json''],
          req_others = Map.empty, req_body = Some (RawBody (FormData ''file''))\<rparr>"
proof -
  let ?env = "mockEnv (mockResponse True 200 [])"
  have h1: "rawRequest ?env (mockFetcher '''' [(''content-type'', ''application/json'')])
       ''/t'' (postParams (OtherObject ''[1]'') None) =
     Inr \<lparr>req_url = ''/t'', req_method = POST,
          req_headers = [''content-type'' \<mapsto> Str ''application/json''],
          req_others = Map.empty, req_body = Some (RawBody (OtherObject ''[1]''))\<rparr>"
    by (simp add: raw_defs mock_defs params_defs url_defs)
  have h2: "rawRequest ?env
       (mockFetcher '''' [(''Content-Type'', ''application/json; charset=utf-8'')])
       ''/t'' (postParams (OtherObject ''[1]'') None) =
     Inr \<lparr>req_url = ''/t'', req_method = POST,
          req_headers = [''Content-Type'' \<mapsto> Str ''application/json; charset=utf-8''],
          req_others = Map.empty, req_body = Some (RawBody (OtherObject ''[1]''))\<rparr>"
    by (simp add: raw_defs mock_defs params_defs url_defs)
  have h3: "rawRequest ?env (mockFetcher '''' [(''content-type'', ''application/json'')])
       ''/t'' (postParams (FormData ''file'') None) =
     Inr \<lparr>req_url = ''/t'', req_method = POST,
          req_headers = [''content-type'' \<mapsto> Str ''application/json''],
          req_others = Map.empty, req_body = Some (RawBody (FormData ''file''))\<rparr>"
    by (auto simp: raw_defs mock_defs params_defs url_defs fun_eq_iff)
  have b: "body (postParams d None :: (string, string) ActionParams) = Some d" for d
    by (simp add: params_defs)
  from C10_exact_key_and_value [OF h1 b] C10_exact_key_and_value [OF h2 b]
    C10_exact_key_and_value [OF h3 b] h1 h2 h3
  show ?thesis
    by simp
qed

text \<open>
  A header under the exact key \<^verbatim>\<open>Content-Type\<close> with a parameterized value is removed for a
  form-data body like any other value: the removal looks at the key alone.
\<close>

theorem C10_counterexample:
  "map_sum id req_headers
     (rawRequest (mockEnv (mockResponse True 200 []))
        (mockFetcher '''' [(''Content-Type'', ''application/json; charset=utf-8'')]) ''/upload''
        (postParams (FormData ''file'') None)) = Inr Map.empty
   \<and> baseHeaders (mockFetcher '''' [(''Content-Type'', ''application/json; charset=utf-8'')])
        ''Content-Type'' = Some ''application/json; charset=utf-8''
   \<and> map_sum id (\<lambda>r. req_headers r ''Content-Type'')
     (rawRequest (mockEnv (mockResponse True 200 []))
        (mockFetcher '''' [(''Content-Type'', ''application/json; charset=utf-8'')]) ''/upload''
        (postParams (FormData ''file'') None)) \<noteq> Inr (Some (Str ''application/json; charset=utf-8''))"
  by (simp add: raw_defs mock_defs params_defs url_defs)

section \<open>The signatures of the verb methods\<close>

text \<open>
  C7 (as amended). \<^verbatim>\<open>delete\<close> takes its data exactly as \<^verbatim>\<open>post\<close>, \<^verbatim>\<open>patch\<close> and \<^verbatim>\<open>put\<close> do, as a
  required parameter that becomes the body of the call; its parameter object is that of
  \<^verbatim>\<open>post\<close> with the method replaced. Only \<^verbatim>\<open>get\<close> passes no body. The options are optional
  for all five.
\<close>

theorem C7_delete_requires_data:
  "body (deleteParams d options) = Some d
   \<and> body (postParams d options) = Some d
   \<and> body (patchParams d options) = Some d
   \<and> body (putParams d options) = Some d
   \<and> body (getParams options) = None
   \<and> method_of (deleteParams d options) = DELETE
   \<and> deleteParams d options = (postParams d options)\<lparr>method_of := DELETE\<rparr>
   \<and> delete env F u d options =
       action env F u \<lparr>method_of = DELETE, body = Some d, rest = spreadOptions options\<rparr>
   \<and> delete env F u d None =
       action env F u
         \<lparr>method_of = DELETE, body = Some d, rest = \<lparr>headers = None, others = Map.empty\<rparr>\<rparr>"
  by (simp add: params_defs delete_def spreadOptions_def)

text \<open>No invocation of \<^verbatim>\<open>delete\<close> leaves the body out.\<close>

theorem C7_counterexample:
  "\<not> (\<exists>(d :: string Body) (options :: string Options option).
         body (deleteParams d options) = None)"
  by (simp add: params_defs)

section \<open>Interceptors and dispatch\<close>

text \<open>
  C6. Each chain is the left fold of \<open>awaitThen\<close> over its list, started with the raw request
  (with the context of the cloned request and the transport's response): the output of a
  handler is the input of the next, and a handler registered later runs later, since
  registration appends. The first effect of the call is the dispatch of the request chain's
  output, and the call is settled from the response chain's final response: decoded when
  it is \<open>ok\<close>, turned into the factory's error otherwise.
\<close>

theorem C6_chains_are_left_folds:
  assumes "rawRequest env F u params = Inr rawReq"
    and "requestHandler F rawReq = Inr req"
    and "responseHandler F (fetch env req) req = Inr res"
  shows "requestHandler F rawReq = fold awaitThen (requestInterceptors F) (Inr rawReq)
       \<and> responseHandler F (fetch env req) req =
           map_sum id response
             (fold awaitThen (responseInterceptors F)
                (map_sum id (\<lambda>raw. \<lparr>request = req, response = raw\<rparr>) (fetch env req)))
       \<and> requestInterceptors (addRequestInterceptor h F) = requestInterceptors F @ [h]
       \<and> responseInterceptors (addResponseInterceptor h' F) = responseInterceptors F @ [h']
       \<and> fold awaitThen (hs @ [g]) acc = awaitThen g (fold awaitThen hs acc)
       \<and> snd (action env F u params) =
           (if ok res then [Fetched req, Read (fst (decode res))] else [Fetched req])
       \<and> fst (action env F u params) =
           (if ok res then map_sum Propagated id (snd (decode res))
            else Inl (Raised (baseThrower F res req)))"
proof -
  have "requestHandler F rawReq = fold awaitThen (requestInterceptors F) (Inr rawReq)"
    by (simp add: requestHandler_def requestLoop_fold)
  moreover have "responseHandler F (fetch env req) req =
           map_sum id response
             (fold awaitThen (responseInterceptors F)
                (map_sum id (\<lambda>raw. \<lparr>request = req, response = raw\<rparr>) (fetch env req)))"
  proof (cases "fetch env req")
    case (Inl x)
    then show ?thesis
      by (simp add: responseHandler_def fold_awaitThen_Inl)
  next
    case (Inr raw)
    then show ?thesis
      by (simp add: responseHandler_def responseLoop_fold split: sum.splits)
  qed
  moreover have "requestInterceptors (addRequestInterceptor h F) = requestInterceptors F @ [h]"
    by (simp add: addRequestInterceptor_def)
  moreover have
    "responseInterceptors (addResponseInterceptor h' F) = responseInterceptors F @ [h']"
    by (simp add: addResponseInterceptor_def)
  moreover have "fold awaitThen (hs @ [g]) acc = awaitThen g (fold awaitThen hs acc)"
    by simp
  moreover have "action env F u params =
      (if ok res then (map_sum Propagated id (snd (decode res)),
                       [Fetched req, Read (fst (decode res))])
       else (Inl (Raised (baseThrower F res req)), [Fetched req]))"
    using assms by (simp add: action_dispatched)
  ultimately show ?thesis
    by simp
qed

text \<open>
  Two request interceptors that append to the URL in turn: the request dispatched shows
  that the one registered first ran first.
\<close>

theorem C6_chains_are_left_folds_witness:
  "get (mockEnv (mockResponse True 200 []))
       (addRequestInterceptor (appendToUrl ''&b=2'')
          (addRequestInterceptor (appendToUrl ''?a=1'') (mockFetcher '''' [])))
       ''/t'' None =
     (Inr ''json'',
      [Fetched \<lparr>req_url = ''/t?a=1&b=2'', req_method = GET, req_headers = Map.empty,
                req_others = Map.empty, req_body = None\<rparr>, Read AsJson])"
proof -
  let ?env = "mockEnv (mockResponse True 200 [])"
  let ?F = "addRequestInterceptor (appendToUrl ''&b=2'')
          (addRequestInterceptor (appendToUrl ''?a=1'') (mockFetcher '''' []))"
  let ?raw = "\<lparr>req_url = ''/t'', req_method = GET,
                req_headers = Map.empty, req_others = Map.empty,
                req_body = (None :: string BodyInit option)\<rparr> :: (string, string) Request"
  let ?req = "\<lparr>req_url = ''/t?a=1&b=2'', req_method = GET,
                req_headers = Map.empty, req_others = Map.empty,
                req_body = (None :: string BodyInit option)\<rparr> :: (string, string) Request"
  have h1: "rawRequest ?env ?F ''/t'' (getParams None) = Inr ?raw"
    by (simp add: raw_defs mock_defs params_defs url_defs addRequestInterceptor_def)
  have h2: "requestHandler ?F ?raw = Inr ?req"
    by (simp add: requestHandler_def mock_defs addRequestInterceptor_def appendToUrl_def)
  have h3: "responseHandler ?F (fetch ?env ?req) ?req = Inr (mockResponse True 200 [])"
    by (simp add: responseHandler_def mock_defs addRequestInterceptor_def)
  have d: "decode (mockResponse True 200 [] :: (string, string) Response) = (AsJson, Inr ''json'')"
    by (simp add: decode_def optIncludes_def mockResponse_def)
  from C6_chains_are_left_folds [OF h1 h2 h3] d
  show ?thesis
    by (simp add: get_def mockResponse_def prod_eq_iff)
qed

text \<open>
  C9. Whatever the status of the transport's response, the response interceptors are run on
  it, and the call is classified by the response of the context they return: decoding when
  that one is \<open>ok\<close>, the factory's error when it is not, and the interceptor's own failure
  when one of them fails.
\<close>

theorem C9_final_response_is_classified:
  assumes "rawRequest env F u params = Inr rawReq"
    and "requestHandler F rawReq = Inr req"
    and "fetch env req = Inr raw"
  shows "fst (action env F u params) =
           (case responseLoop (responseInterceptors F) \<lparr>request = req, response = raw\<rparr> of
              Inl x \<Rightarrow> Inl (Propagated x)
            | Inr ctx \<Rightarrow>
                if ok (response ctx) then map_sum Propagated id (snd (decode (response ctx)))
                else Inl (Raised (baseThrower F (response ctx) req)))"
  using assms
  by (simp add: action_dispatched responseHandler_def split: sum.splits)

text \<open>
  A 500 response replaced by a 200 one makes the call succeed; a 200 response replaced by a
  401 one makes it fail with status 401; an interceptor that fails on a 500 response fails
  the call with its own value rather than the factory's.
\<close>

theorem C9_final_response_is_classified_witness:
  "fst (get (mockEnv (mockResponse False 500 []))
          (addResponseInterceptor (replaceResponse (mockResponse True 200 []))
             (mockFetcher '''' []))
          ''/t'' None) = Inr ''json''
   \<and> fst (get (mockEnv (mockResponse True 200 []))
          (addResponseInterceptor (replaceResponse (mockResponse False 401 []))
             (mockFetcher '''' []))
          ''/t'' None) = Inl (Raised \<lparr>url = ''/t'', statusCode = 401\<rparr>)
   \<and> fst (get (mockEnv (mockResponse False 500 []))
          (addResponseInterceptor (\<lambda>ctx. Inl ''interceptor ran'') (mockFetcher '''' []))
          ''/t'' None) = Inl (Propagated ''interceptor ran'')"
proof -
  let ?req = "\<lparr>req_url = ''/t'', req_method = GET,
                req_headers = Map.empty, req_others = Map.empty,
                req_body = (None :: string BodyInit option)\<rparr> :: (string, string) Request"
  have h1: "rawRequest (mockEnv res) (addResponseInterceptor i (mockFetcher '''' []))
              ''/t'' (getParams None) = Inr ?req" for res i
    by (simp add: raw_defs mock_defs params_defs url_defs addResponseInterceptor_def)
  have h2: "requestHandler (addResponseInterceptor i (mockFetcher '''' [])) ?req = Inr ?req"
    for i
    by (simp add: requestHandler_def mock_defs addResponseInterceptor_def)
  have h3: "fetch (mockEnv res) ?req = Inr res" for res
    by (simp add: mockEnv_def)
  have d: "decode (mockResponse True 200 [] :: (string, string) Response) = (AsJson, Inr ''json'')"
    by (simp add: decode_def optIncludes_def mockResponse_def)
  from C9_final_response_is_classified [OF h1 h2 h3] d
  show ?thesis
    by (simp add: get_def addResponseInterceptor_def replaceResponse_def mock_defs
        default_baseThrower_def)
qed

section \<open>Classifying and decoding the response\<close>

text \<open>
  C1. Every verb method is \<open>action\<close> applied to its parameter object. When the response
  interceptors return a response that is not \<open>ok\<close>, the call fails with the value of the
  error factory at that response and the clone of the dispatched request, and its only
  effect is the dispatch: no body reader is called. The default factory, which a client
  constructed without \<^verbatim>\<open>baseError\<close> uses, puts the response's status into \<open>statusCode\<close> and
  the request's URL into \<open>url\<close>.
\<close>

theorem C1_non_success_raises_factory_error:
  assumes "rawRequest env F u params = Inr rawReq"
    and "requestHandler F rawReq = Inr req"
    and "responseHandler F (fetch env req) req = Inr res"
    and "\<not> ok res"
  shows "action env F u params = (Inl (Raised (baseThrower F res req)), [Fetched req])
       \<and> (\<forall>reader. Read reader \<notin> set (snd (action env F u params)))
       \<and> statusCode (default_baseThrower res req) = status res
       \<and> url (default_baseThrower res req) = req_url req
       \<and> baseThrower (new_Fetcher None) = default_baseThrower
       \<and> baseThrower (new_Fetcher (Some (cfg\<lparr>opt_baseError := None\<rparr>))) = default_baseThrower"
proof -
  have "action env F u params = (Inl (Raised (baseThrower F res req)), [Fetched req])"
    using assms by (simp add: action_dispatched)
  then show ?thesis
    by (simp add: default_baseThrower_def new_Fetcher_def)
qed

text \<open>
  The repository's test: a 404 answer to \<^verbatim>\<open>get("/not-found")\<close> with base URL
  \<^verbatim>\<open>http://localhost\<close>.
\<close>

theorem C1_non_success_raises_factory_error_witness:
  "get (mockEnv (mockResponse False 404 [])) (mockFetcher ''http://localhost'' [])
       ''/not-found'' None =
     (Inl (Raised \<lparr>url = ''http://localhost/not-found'', statusCode = 404\<rparr>),
      [Fetched \<lparr>req_url = ''http://localhost/not-found'', req_method = GET,
                req_headers = Map.empty, req_others = Map.empty, req_body = None\<rparr>])"
proof -
  let ?env = "mockEnv (mockResponse False 404 [])"
  let ?F = "mockFetcher ''http://localhost'' []"
  let ?req = "\<lparr>req_url = ''http://localhost/not-found'', req_method = GET,
                req_headers = Map.empty, req_others = Map.empty,
                req_body = (None :: string BodyInit option)\<rparr> :: (string, string) Request"
  have h1: "rawRequest ?env ?F ''/not-found'' (getParams None) = Inr ?req"
    by (simp add: raw_defs mock_defs params_defs url_defs)
  have h2: "requestHandler ?F ?req = Inr ?req"
    by (simp add: requestHandler_def mock_defs)
  have h3: "responseHandler ?F (fetch ?env ?req) ?req = Inr (mockResponse False 404 [])"
    by (simp add: responseHandler_def mock_defs)
  have h4: "\<not> ok (mockResponse False 404 [] :: (string, string) Response)"
    by (simp add: mockResponse_def)
  from C1_non_success_raises_factory_error [OF h1 h2 h3 h4]
  show ?thesis
    by (simp add: get_def mock_defs)
qed

text \<open>
  C2. For a call whose final response is \<open>ok\<close>: if \<^verbatim>\<open>Content-Disposition\<close> contains
  \<^verbatim>\<open>attachment\<close> the body is read as a blob; else if \<^verbatim>\<open>Content-Type\<close> contains \<^verbatim>\<open>text/\<close> it
  is read as text; else if \<^verbatim>\<open>Content-Type\<close> contains \<^verbatim>\<open>image/\<close>, \<^verbatim>\<open>audio/\<close>, \<^verbatim>\<open>video/\<close> or
  \<^verbatim>\<open>application/vnd\<close>, or equals \<^verbatim>\<open>application/octet-stream\<close> or \<^verbatim>\<open>application/zip\<close>, it
  is read as a blob; otherwise it is read as JSON. In particular an attachment of type
  \<^verbatim>\<open>application/json\<close> is read as a blob, and a response without \<^verbatim>\<open>Content-Type\<close> (and
  without an attachment disposition) as JSON. Exactly one reader is called, after the
  dispatch, and its outcome settles the call.
\<close>

theorem C2_decoding_precedence:
  assumes "rawRequest env F u params = Inr rawReq"
    and "requestHandler F rawReq = Inr req"
    and "responseHandler F (fetch env req) req = Inr res"
    and "ok res"
  shows "(let disposition = headers_get res ''Content-Disposition'';
              contentType = headers_get res ''Content-Type'';
              attachment = optIncludes disposition ''attachment'';
              textual = optIncludes contentType ''text/'';
              binary = (optIncludes contentType ''image/'' \<or>
                        optIncludes contentType ''audio/'' \<or>
                        optIncludes contentType ''video/'' \<or>
                        optIncludes contentType ''application/vnd'' \<or>
                        contentType = Some ''application/octet-stream'' \<or>
                        contentType = Some ''application/zip'');
              blob = (map_sum Propagated id (resp_blob res), [Fetched req, Read AsBlob]);
              text = (map_sum Propagated id (resp_text res), [Fetched req, Read AsText]);
              json = (map_sum Propagated id (resp_json res), [Fetched req, Read AsJson]);
              result = action env F u params
          in (attachment \<longrightarrow> result = blob)
           \<and> (\<not> attachment \<and> textual \<longrightarrow> result = text)
           \<and> (\<not> attachment \<and> \<not> textual \<and> binary \<longrightarrow> result = blob)
           \<and> (\<not> attachment \<and> \<not> textual \<and> \<not> binary \<longrightarrow> result = json)
           \<and> (disposition = Some ''attachment'' \<and> contentType = Some ''application/json''
                \<longrightarrow> result = blob)
           \<and> (\<not> attachment \<and> contentType = None \<longrightarrow> result = json))"
proof -
  have a: "action env F u params =
      (map_sum Propagated id (snd (decode res)), [Fetched req, Read (fst (decode res))])"
    using assms by (simp add: action_dispatched)
  have b: "optIncludes (Some ''attachment'') ''attachment''"
    by (simp add: optIncludes_def startsWith_def)
  have c: "\<not> optIncludes None sub" for sub
    by (simp add: optIncludes_def)
  show ?thesis
    unfolding Let_def a
    by (auto simp: decode_def b c)
qed

text \<open>
  An attachment of type \<^verbatim>\<open>application/json\<close> is read as a blob, \<^verbatim>\<open>text/html\<close> as text,
  \<^verbatim>\<open>application/zip\<close> as a blob, and a response without headers as JSON.
\<close>

theorem C2_decoding_precedence_witness:
  "get (mockEnv (mockResponse True 200
          [(''Content-Disposition'', ''attachment; filename=a.json''),
           (''Content-Type'', ''application/json'')]))
       (mockFetcher '''' []) ''/t'' None =
     (Inr ''blob'',
      [Fetched \<lparr>req_url = ''/t'', req_method = GET, req_headers = Map.empty,
                req_others = Map.empty, req_body = None\<rparr>, Read AsBlob])
   \<and> get (mockEnv (mockResponse True 200 [(''Content-Type'', ''text/html'')]))
       (mockFetcher '''' []) ''/t'' None =
     (Inr ''text'',
      [Fetched \<lparr>req_url = ''/t'', req_method = GET, req_headers = Map.empty,
                req_others = Map.empty, req_body = None\<rparr>, Read AsText])
   \<and> get (mockEnv (mockResponse True 200 [(''Content-Type'', ''application/zip'')]))
       (mockFetcher '''' []) ''/t'' None =
     (Inr ''blob'',
      [Fetched \<lparr>req_url = ''/t'', req_method = GET, req_headers = Map.empty,
                req_others = Map.empty, req_body = None\<rparr>, Read AsBlob])
   \<and> get (mockEnv (mockResponse True 200 [])) (mockFetcher '''' []) ''/t'' None =
     (Inr ''json'',
      [Fetched \<lparr>req_url = ''/t'', req_method = GET, req_headers = Map.empty,
                req_others = Map.empty, req_body = None\<rparr>, Read AsJson])"
proof -
  let ?F = "mockFetcher '''' []"
  let ?req = "\<lparr>req_url = ''/t'', req_method = GET,
                req_headers = Map.empty, req_others = Map.empty,
                req_body = (None :: string BodyInit option)\<rparr> :: (string, string) Request"
  have h1: "rawRequest (mockEnv res) ?F ''/t'' (getParams None) = Inr ?req" for res
    by (simp add: raw_defs mock_defs params_defs url_defs)
  have h2: "requestHandler ?F ?req = Inr ?req"
    by (simp add: requestHandler_def mock_defs)
  have h3: "responseHandler ?F (fetch (mockEnv res) ?req) ?req = Inr res" for res
    by (simp add: responseHandler_def mock_defs)
  have h4: "ok (mockResponse True 200 hs)" for hs
    by (simp add: mockResponse_def)
  note rule = C2_decoding_precedence [OF h1 h2 h3 h4]
  from rule [of "[(''Content-Disposition'', ''attachment; filename=a.json''),
                  (''Content-Type'', ''application/json'')]"]
    rule [of "[(''Content-Type'', ''text/html'')]"]
    rule [of "[(''Content-Type'', ''application/zip'')]"]
    rule [of "[]"]
  show ?thesis
    by (simp add: get_def mockResponse_def optIncludes_def startsWith_def Let_def)
qed

end
